theory Spec2Isabelle
  imports
    Main
    "HOL-Library.Char_ord"
    "HOL-Library.List_Lexorder"
    "HOL-Library.Product_Lexorder"
    "HOL-Library.Multiset"
begin

section \<open>JavaScript values\<close>

text \<open>
  Request bodies are what \<^verbatim>\<open>express.json()\<close> leaves in \<^verbatim>\<open>req.body\<close>: a parsed JSON
  value, or \<^verbatim>\<open>undefined\<close> when nothing was parsed. Strings are lists of bytes (UTF-8).
  Numbers are integers here; the code only ever tests a number for being zero and hands it
  to the storage engine. An object is its list of own properties, looked up from the left.
\<close>

datatype jsval =
    JUndefined
  | JNull
  | JBool bool
  | JNum int
  | JStr string
  | JArr "jsval list"
  | JObj "(string \<times> jsval) list"

text \<open>What \<^verbatim>\<open>!v\<close>, \<^verbatim>\<open>&&\<close> and \<^verbatim>\<open>? :\<close> look at: an array or an object is always truthy.\<close>

fun truthy :: "jsval \<Rightarrow> bool" where
  "truthy JUndefined = False"
| "truthy JNull = False"
| "truthy (JBool b) = b"
| "truthy (JNum n) = (n \<noteq> 0)"
| "truthy (JStr s) = (s \<noteq> [])"
| "truthy (JArr xs) = True"
| "truthy (JObj kvs) = True"

text \<open>
  Everything that can be thrown on the paths modelled: the \<^verbatim>\<open>TypeError\<close> of a property read
  or of a destructuring on \<^verbatim>\<open>null\<close> or \<^verbatim>\<open>undefined\<close>, the errors of the driver's
  parameter binding, and the two constraint failures of the \<^verbatim>\<open>quotes\<close> table.
  \<open>message\<close> is \<^verbatim>\<open>error.message\<close>, in the wording of the JavaScript engine, of the driver
  and of the database engine.
\<close>

datatype js_error =
    NullPropertyRead string
  | UndefinedPropertyRead string
  | DestructureNull string
  | DestructureUndefined string
  | BindUnsupportedType
  | BindTooFew
  | BindTooMany
  | BindMissingNamed string
  | BindMissingNamedAll
  | BindTwoObjects
  | NotNullFailed string
  | CheckFailed

fun message :: "js_error \<Rightarrow> string" where
  "message (NullPropertyRead k) =
     ''Cannot read properties of null (reading '' @ [CHR 0x27] @ k @ [CHR 0x27] @ '')''"
| "message (UndefinedPropertyRead k) =
     ''Cannot read properties of undefined (reading '' @ [CHR 0x27] @ k @ [CHR 0x27] @ '')''"
| "message (DestructureNull k) =
     ''Cannot destructure property '' @ [CHR 0x27] @ k @ [CHR 0x27] @
     '' of 'req.body' as it is null.''"
| "message (DestructureUndefined k) =
     ''Cannot destructure property '' @ [CHR 0x27] @ k @ [CHR 0x27] @
     '' of 'req.body' as it is undefined.''"
| "message BindUnsupportedType = ''SQLite3 can only bind numbers, strings, bigints, buffers, and null''"
| "message BindTooFew = ''Too few parameter values were provided''"
| "message BindTooMany = ''Too many parameter values were provided''"
| "message (BindMissingNamed k) = ''Missing named parameter '' @ [CHR 0x22] @ k @ [CHR 0x22]"
| "message BindMissingNamedAll = ''Missing named parameters''"
| "message BindTwoObjects = ''You cannot specify named parameters in two different objects''"
| "message (NotNullFailed c) = ''NOT NULL constraint failed: quotes.'' @ c"
| "message CheckFailed = ''CHECK constraint failed: language IN ('fr', 'en')''"

text \<open>
  \<^verbatim>\<open>v.k\<close> for the property names \<^verbatim>\<open>quote\<close>, \<^verbatim>\<open>author\<close> and \<^verbatim>\<open>language\<close>, which no
  built-in prototype defines: a primitive or an array has no such property.
\<close>

fun get_prop :: "jsval \<Rightarrow> string \<Rightarrow> js_error + jsval" where
  "get_prop JUndefined k = Inl (UndefinedPropertyRead k)"
| "get_prop JNull k = Inl (NullPropertyRead k)"
| "get_prop (JObj kvs) k = Inr (case map_of kvs k of None \<Rightarrow> JUndefined | Some v \<Rightarrow> v)"
| "get_prop v k = Inr JUndefined"

text \<open>
  One property of the pattern \<^verbatim>\<open>const { quote, author } = req.body\<close>: the same read,
  with the error of a destructuring when the body is \<^verbatim>\<open>null\<close> or \<^verbatim>\<open>undefined\<close>.
\<close>

fun destructure :: "jsval \<Rightarrow> string \<Rightarrow> js_error + jsval" where
  "destructure JUndefined k = Inl (DestructureUndefined k)"
| "destructure JNull k = Inl (DestructureNull k)"
| "destructure v k = get_prop v k"

text \<open>\<^verbatim>\<open>Array.prototype.includes\<close> on an array of string literals.\<close>

definition array_includes :: "string list \<Rightarrow> jsval \<Rightarrow> bool" where
  "array_includes xs v = (case v of JStr s \<Rightarrow> s \<in> set xs | _ \<Rightarrow> False)"

text \<open>\<^verbatim>\<open>Array.prototype.every\<close>: stops at the first falsy answer, and at the first throw.\<close>

fun every :: "(jsval \<Rightarrow> js_error + jsval) \<Rightarrow> jsval list \<Rightarrow> js_error + bool" where
  "every p [] = Inr True"
| "every p (x # xs) =
     (case p x of
        Inl e \<Rightarrow> Inl e
      | Inr v \<Rightarrow> if truthy v then every p xs else Inr False)"

text \<open>Decimal digits of a number, as a template literal prints it.\<close>

fun show_nat :: "nat \<Rightarrow> string" where
  "show_nat n =
     (if n < 10 then [''0123456789'' ! n]
      else show_nat (n div 10) @ [''0123456789'' ! (n mod 10)])"

declare show_nat.simps [simp del]

definition e_acute :: string where
  "e_acute = [CHR 0xC3, CHR 0xA9]"

definition e_grave :: string where
  "e_grave = [CHR 0xC3, CHR 0xA8]"

definition E_acute :: string where
  "E_acute = [CHR 0xC3, CHR 0x89]"

section \<open>Request validation (server.js)\<close>

text \<open>
  The test of the \<^verbatim>\<open>validateLanguage\<close> middleware on \<^verbatim>\<open>req.params.language\<close>, a string:
  when it is false the middleware answers 400 itself and the route's handler never runs.
\<close>

definition validateLanguage :: "string \<Rightarrow> bool" where
  "validateLanguage lang = array_includes [''fr'', ''en''] (JStr lang)"

text \<open>The callback of \<^verbatim>\<open>quotes.every\<close>: a chain of \<^verbatim>\<open>&&\<close>, whose value is its first falsy operand.\<close>

definition quote_valid :: "jsval \<Rightarrow> js_error + jsval" where
  "quote_valid q =
     (case get_prop q ''quote'' of
        Inl e \<Rightarrow> Inl e
      | Inr a \<Rightarrow>
          if \<not> truthy a then Inr a
          else (case get_prop q ''author'' of
                  Inl e \<Rightarrow> Inl e
                | Inr b \<Rightarrow>
                    if \<not> truthy b then Inr b
                    else (case get_prop q ''language'' of
                            Inl e \<Rightarrow> Inl e
                          | Inr c \<Rightarrow>
                              if \<not> truthy c then Inr c
                              else Inr (JBool (array_includes [''fr'', ''en''] c)))))"

definition validateQuotes :: "jsval \<Rightarrow> js_error + bool" where
  "validateQuotes quotes =
     (case quotes of
        JArr qs \<Rightarrow> every quote_valid qs
      | _ \<Rightarrow> Inr False)"

section \<open>The storage component (database.js)\<close>

text \<open>
  The table \<^verbatim>\<open>quotes\<close>: three \<^verbatim>\<open>TEXT NOT NULL\<close> columns behind an
  \<^verbatim>\<open>INTEGER PRIMARY KEY AUTOINCREMENT\<close>, kept in rowid order together with the largest
  rowid handed out so far. A column of type \<^verbatim>\<open>TEXT\<close> stores a number as its text, so every
  stored cell is a string.
\<close>

record row =
  row_id :: nat
  quote :: string
  author :: string
  language :: string

record quotesdb =
  rows :: "row list"
  seq :: nat

text \<open>\<^verbatim>\<open>CREATE TABLE IF NOT EXISTS\<close>: an empty table for a new file, nothing for an old one.\<close>

definition init :: "quotesdb option \<Rightarrow> quotesdb" where
  "init file = (case file of None \<Rightarrow> \<lparr>rows = [], seq = 0\<rparr> | Some db \<Rightarrow> db)"

subsection \<open>Binding parameters\<close>

datatype sqlval = SNull | SReal int | SText string

text \<open>
  The driver binds a string as text, a number as a real and \<^verbatim>\<open>null\<close> or
  \<^verbatim>\<open>undefined\<close> as NULL, and throws a \<^verbatim>\<open>TypeError\<close> for a boolean, an array or an object
  in the place of a single value.
\<close>

fun bind_value :: "jsval \<Rightarrow> js_error + sqlval" where
  "bind_value (JStr s) = Inr (SText s)"
| "bind_value (JNum n) = Inr (SReal n)"
| "bind_value JNull = Inr SNull"
| "bind_value JUndefined = Inr SNull"
| "bind_value v = Inl BindUnsupportedType"

text \<open>
  An array among the arguments of \<^verbatim>\<open>run\<close> stands for its elements: each is bound to the
  next anonymous parameter (\<^verbatim>\<open>run('a', 'b', 'c')\<close>, \<^verbatim>\<open>run(['a', 'b', 'c'])\<close> and
  \<^verbatim>\<open>run(['a'], ['b', 'c'])\<close> are the same call). \<open>pc\<close> is the statement's number of
  parameters, \<open>vs\<close> the values bound so far.
\<close>

fun bind_array :: "nat \<Rightarrow> sqlval list \<Rightarrow> jsval list \<Rightarrow> js_error + sqlval list" where
  "bind_array pc vs [] = Inr vs"
| "bind_array pc vs (x # xs) =
     (case bind_value x of
        Inl e \<Rightarrow> Inl e
      | Inr v \<Rightarrow> if pc \<le> length vs then Inl BindTooMany else bind_array pc (vs @ [v]) xs)"

text \<open>
  The arguments of \<^verbatim>\<open>run\<close> for a statement whose parameters are all anonymous
  (\<^verbatim>\<open>?\<close>). A plain object carries named parameters, of which there are none to bind here,
  and only one such object is allowed (\<open>bo\<close> records that one was seen). At the end the
  number of bound values must be the number of parameters.
\<close>

fun bind_args :: "nat \<Rightarrow> sqlval list \<Rightarrow> bool \<Rightarrow> jsval list \<Rightarrow> js_error + sqlval list" where
  "bind_args pc vs bo [] = (if length vs < pc then Inl BindTooFew else Inr vs)"
| "bind_args pc vs bo (JArr xs # as) =
     (case bind_array pc vs xs of
        Inl e \<Rightarrow> Inl e
      | Inr vs' \<Rightarrow> bind_args pc vs' bo as)"
| "bind_args pc vs bo (JObj kvs # as) =
     (if bo then Inl BindTwoObjects else bind_args pc vs True as)"
| "bind_args pc vs bo (a # as) =
     (case bind_value a of
        Inl e \<Rightarrow> Inl e
      | Inr v \<Rightarrow> if pc \<le> length vs then Inl BindTooMany else bind_args pc (vs @ [v]) bo as)"

text \<open>
  A plain object bound to a statement whose parameters are all named (\<^verbatim>\<open>@quote\<close>,
  \<^verbatim>\<open>@author\<close>, \<^verbatim>\<open>@language\<close>): each name must be an own property, and its value is
  bound as a single value (no array is unfolded here).
\<close>

fun bind_object :: "string list \<Rightarrow> (string \<times> jsval) list \<Rightarrow> js_error + sqlval list" where
  "bind_object [] kvs = Inr []"
| "bind_object (n # ns) kvs =
     (case map_of kvs n of
        None \<Rightarrow> Inl (BindMissingNamed n)
      | Some v \<Rightarrow>
          (case bind_value v of
             Inl e \<Rightarrow> Inl e
           | Inr s \<Rightarrow>
               (case bind_object ns kvs of
                  Inl e \<Rightarrow> Inl e
                | Inr ss \<Rightarrow> Inr (s # ss))))"

text \<open>
  The single argument of \<^verbatim>\<open>insertManyQuotes.run(quote)\<close>. Anything but a plain object
  would be an anonymous value, for which the statement has no parameter.
\<close>

fun bind_named :: "string list \<Rightarrow> jsval \<Rightarrow> js_error + sqlval list" where
  "bind_named ns (JObj kvs) = bind_object ns kvs"
| "bind_named ns (JArr []) = Inl BindMissingNamedAll"
| "bind_named ns (JArr (x # xs)) =
     (case bind_value x of Inl e \<Rightarrow> Inl e | Inr v \<Rightarrow> Inl BindTooMany)"
| "bind_named ns a =
     (case bind_value a of Inl e \<Rightarrow> Inl e | Inr v \<Rightarrow> Inl BindTooMany)"

subsection \<open>The statements\<close>

text \<open>
  The text a \<^verbatim>\<open>TEXT\<close> column keeps for a bound real: \<^verbatim>\<open>5.0\<close> for 5. This is the
  engine's text for the integers it prints in full; for a large magnitude (\<^verbatim>\<open>1.0e+17\<close>
  for \<open>10 ^ 17\<close>) the engine writes an exponent, which this definition does not follow.
  No property below is about the digits of a stored number.
\<close>

definition num_text :: "int \<Rightarrow> string" where
  "num_text n = (if n < 0 then ''-'' else []) @ show_nat (nat \<bar>n\<bar>) @ ''.0''"

fun to_text :: "sqlval \<Rightarrow> string" where
  "to_text (SText s) = s"
| "to_text (SReal n) = num_text n"
| "to_text SNull = []"

text \<open>
  \<^verbatim>\<open>INSERT INTO quotes (quote, author, language) VALUES (?, ?, ?)\<close> on three bound values:
  the \<^verbatim>\<open>NOT NULL\<close> constraints, then \<^verbatim>\<open>CHECK (language IN ('fr', 'en'))\<close>, give the
  three texts to store or the failure. (The binder only lets three values through, so the
  last equation is never used.)
\<close>

fun check_constraints :: "sqlval list \<Rightarrow> js_error + string \<times> string \<times> string" where
  "check_constraints [q, a, l] =
     (if q = SNull then Inl (NotNullFailed ''quote'')
      else if a = SNull then Inl (NotNullFailed ''author'')
      else if l = SNull then Inl (NotNullFailed ''language'')
      else if to_text l \<notin> set [''fr'', ''en''] then Inl CheckFailed
      else Inr (to_text q, to_text a, to_text l))"
| "check_constraints vs = Inl BindTooFew"

text \<open>The new row takes the next rowid. A failed statement changes nothing.\<close>

fun append_row :: "quotesdb \<Rightarrow> string \<times> string \<times> string \<Rightarrow> quotesdb" where
  "append_row db (q, a, l) =
     db\<lparr>rows := rows db @ [\<lparr>row_id = Suc (seq db), quote = q, author = a, language = l\<rparr>],
        seq := Suc (seq db)\<rparr>"

definition insert_values :: "quotesdb \<Rightarrow> sqlval list \<Rightarrow> js_error + quotesdb" where
  "insert_values db vs =
     (case check_constraints vs of
        Inl e \<Rightarrow> Inl e
      | Inr c \<Rightarrow> Inr (append_row db c))"

definition insertQuote_run :: "quotesdb \<Rightarrow> jsval list \<Rightarrow> js_error + quotesdb" where
  "insertQuote_run db args =
     (case bind_args 3 [] False args of
        Inl e \<Rightarrow> Inl e
      | Inr vs \<Rightarrow> insert_values db vs)"

definition insertManyQuotes_run :: "quotesdb \<Rightarrow> jsval \<Rightarrow> js_error + quotesdb" where
  "insertManyQuotes_run db arg =
     (case bind_named [''quote'', ''author'', ''language''] arg of
        Inl e \<Rightarrow> Inl e
      | Inr vs \<Rightarrow> insert_values db vs)"

text \<open>The three columns every \<^verbatim>\<open>SELECT\<close> returns, as the driver's row object.\<close>

definition row_obj :: "row \<Rightarrow> jsval" where
  "row_obj r =
     JObj [(''quote'', JStr (quote r)), (''author'', JStr (author r)),
           (''language'', JStr (language r))]"

text \<open>
  \<^verbatim>\<open>ORDER BY\<close> compares text byte by byte, which is the lexicographic order of
  \<^typ>\<open>string\<close>. Rows with equal keys are left in rowid order here; SQL itself leaves
  their order open.
\<close>

definition select_all :: "quotesdb \<Rightarrow> row list" where
  "select_all db = sort_key (\<lambda>r. (language r, author r)) (rows db)"

definition select_by_language :: "quotesdb \<Rightarrow> string \<Rightarrow> row list" where
  "select_by_language db lang = sort_key author (filter (\<lambda>r. language r = lang) (rows db))"

text \<open>
  \<^verbatim>\<open>ORDER BY RANDOM() LIMIT 1\<close>: \<open>rnd i\<close> is the value of the \<open>i\<close>-th call of
  \<^verbatim>\<open>RANDOM()\<close>, one call for each matching row; the row with the least value is first.
\<close>

definition select_random :: "(nat \<Rightarrow> int) \<Rightarrow> quotesdb \<Rightarrow> string \<Rightarrow> row list" where
  "select_random rnd db lang =
     (let ms = filter (\<lambda>r. language r = lang) (rows db)
      in take 1 (map snd (sort_key fst (zip (map rnd [0..<length ms]) ms))))"

subsection \<open>The methods of QuotesDB\<close>

definition getAllQuotes :: "quotesdb \<Rightarrow> jsval list" where
  "getAllQuotes db = map row_obj (select_all db)"

definition getQuotesByLanguage :: "quotesdb \<Rightarrow> string \<Rightarrow> jsval list" where
  "getQuotesByLanguage db lang = map row_obj (select_by_language db lang)"

text \<open>\<^verbatim>\<open>get\<close> returns the first row, or \<^verbatim>\<open>undefined\<close> when there is none.\<close>

definition getRandomQuote :: "(nat \<Rightarrow> int) \<Rightarrow> quotesdb \<Rightarrow> string \<Rightarrow> jsval" where
  "getRandomQuote rnd db lang =
     (case select_random rnd db lang of [] \<Rightarrow> JUndefined | r # _ \<Rightarrow> row_obj r)"

definition addQuote :: "quotesdb \<Rightarrow> jsval \<Rightarrow> jsval \<Rightarrow> string \<Rightarrow> js_error + quotesdb" where
  "addQuote db q a lang = insertQuote_run db [q, a, JStr lang]"

text \<open>
  The body of the transaction function: the \<^verbatim>\<open>for\<close> loop over the records. It returns
  the table as the loop left it, and the error that ended it, if any.
\<close>

fun insert_loop :: "quotesdb \<Rightarrow> jsval list \<Rightarrow> quotesdb \<times> js_error option" where
  "insert_loop db [] = (db, None)"
| "insert_loop db (q # qs) =
     (case insertManyQuotes_run db q of
        Inl e \<Rightarrow> (db, Some e)
      | Inr db' \<Rightarrow> insert_loop db' qs)"

text \<open>
  \<^verbatim>\<open>db.transaction(fn)\<close>: \<^verbatim>\<open>BEGIN\<close>, run \<open>fn\<close>, then \<^verbatim>\<open>COMMIT\<close> what it did, or,
  when it threw, \<^verbatim>\<open>ROLLBACK\<close> to the table as it was and throw the same error again.
\<close>

definition transaction ::
  "(quotesdb \<Rightarrow> 'a \<Rightarrow> quotesdb \<times> js_error option) \<Rightarrow>
     quotesdb \<Rightarrow> 'a \<Rightarrow> quotesdb \<times> js_error option" where
  "transaction fn db x =
     (case fn db x of
        (working, None) \<Rightarrow> (working, None)
      | (working, Some e) \<Rightarrow> (db, Some e))"

text \<open>The object \<^verbatim>\<open>addManyQuotes\<close> returns: \<^verbatim>\<open>{success: true, count}\<close> or \<^verbatim>\<open>{success: false, error}\<close>.\<close>

datatype bulk_result = Success nat | Failure string

definition addManyQuotes :: "quotesdb \<Rightarrow> jsval list \<Rightarrow> bulk_result \<times> quotesdb" where
  "addManyQuotes db quotes =
     (case transaction insert_loop db quotes of
        (db', None) \<Rightarrow> (Success (length quotes), db')
      | (db', Some e) \<Rightarrow> (Failure (message e), db'))"

section \<open>The request handlers (server.js)\<close>

text \<open>
  What a request is answered from: \<^verbatim>\<open>process.env.NODE_ENV\<close>, which may be unset, and the
  values \<^verbatim>\<open>RANDOM()\<close> returns while the request is served.
\<close>

record env =
  node_env :: "string option"
  random :: "nat \<Rightarrow> int"

definition no_random :: "nat \<Rightarrow> int" where
  "no_random i = 0"

definition production :: env where
  "production = \<lparr>node_env = Some ''production'', random = no_random\<rparr>"

definition development :: env where
  "development = \<lparr>node_env = Some ''development'', random = no_random\<rparr>"

datatype storage_call =
    CallGetAllQuotes
  | CallGetQuotesByLanguage
  | CallGetRandomQuote
  | CallAddQuote
  | CallAddManyQuotes

text \<open>
  The outcome of a request: the status and JSON body sent, the table afterwards, and the
  methods of the storage component that were called on the way.
\<close>

record outcome =
  status :: nat
  body :: jsval
  store :: quotesdb
  calls :: "storage_call list"

datatype request =
    GET_quotes
  | POST_quotes jsval
  | GET_language_quotes string
  | GET_language_quote string
  | POST_language_quote string jsval

text \<open>
  The global error handler, which Express calls with whatever a handler throws: the
  \<^verbatim>\<open>details\<close> field is spread in only when \<^verbatim>\<open>NODE_ENV\<close> is \<^verbatim>\<open>development\<close>.
\<close>

definition error_handler :: "env \<Rightarrow> js_error \<Rightarrow> quotesdb \<Rightarrow> storage_call list \<Rightarrow> outcome" where
  "error_handler ev err db cs =
     \<lparr>status = 500,
      body = JObj ((''error'', JStr ''Erreur interne du serveur / Internal server error'') #
                   (if node_env ev = Some ''development''
                    then [(''details'', JStr (message err))] else [])),
      store = db, calls = cs\<rparr>"

definition unsupported_language :: "quotesdb \<Rightarrow> outcome" where
  "unsupported_language db =
     \<lparr>status = 400,
      body = JObj [(''error'', JStr (''Langue non support'' @ e_acute @ ''e / Unsupported language''))],
      store = db, calls = []\<rparr>"

definition none_available :: "string \<Rightarrow> string" where
  "none_available lang =
     ''Aucune citation disponible en '' @ lang @ '' / No quotes available in '' @ lang"

definition get_quotes :: "env \<Rightarrow> quotesdb \<Rightarrow> outcome" where
  "get_quotes ev db =
     (let quotes = getAllQuotes db in
      if length quotes = 0
      then \<lparr>status = 404,
            body = JObj [(''message'', JStr ''Aucune citation disponible / No quotes available'')],
            store = db, calls = [CallGetAllQuotes]\<rparr>
      else \<lparr>status = 200,
            body = JObj [(''total'', JNum (int (length quotes))), (''quotes'', JArr quotes)],
            store = db, calls = [CallGetAllQuotes]\<rparr>)"

text \<open>The elements the \<^verbatim>\<open>for\<close> loop visits; the body is an array once \<^verbatim>\<open>validateQuotes\<close> has passed.\<close>

fun array_elements :: "jsval \<Rightarrow> jsval list" where
  "array_elements (JArr qs) = qs"
| "array_elements v = []"

definition invalid_format :: "quotesdb \<Rightarrow> outcome" where
  "invalid_format db =
     \<lparr>status = 400,
      body = JObj [(''error'', JStr ''Format invalide / Invalid format''),
                   (''expected'',
                    JObj [(''type'', JStr ''array''),
                          (''items'',
                           JObj [(''quote'', JStr ''string''), (''author'', JStr ''string''),
                                 (''language'', JStr ''fr|en'')])])],
      store = db, calls = []\<rparr>"

definition post_quotes :: "env \<Rightarrow> quotesdb \<Rightarrow> jsval \<Rightarrow> outcome" where
  "post_quotes ev db quotes =
     (case validateQuotes quotes of
        Inl e \<Rightarrow> error_handler ev e db []
      | Inr ok \<Rightarrow>
          if \<not> ok then invalid_format db
          else (case addManyQuotes db (array_elements quotes) of
                  (Success n, db') \<Rightarrow>
                    \<lparr>status = 200,
                     body = JObj [(''success'', JBool True),
                                  (''message'',
                                   JStr (show_nat n @ '' citations import'' @ e_acute @
                                         ''es / quotes imported''))],
                     store = db', calls = [CallAddManyQuotes]\<rparr>
                | (Failure err, db') \<Rightarrow>
                    \<lparr>status = 500,
                     body = JObj ([(''success'', JBool False),
                                   (''message'',
                                    JStr (E_acute @ ''chec de l'import / Import failed''))] @
                                  (if truthy (JStr err) then [(''error'', JStr err)] else [])),
                     store = db', calls = [CallAddManyQuotes]\<rparr>))"

definition get_language_quotes :: "env \<Rightarrow> quotesdb \<Rightarrow> string \<Rightarrow> outcome" where
  "get_language_quotes ev db lang =
     (if \<not> validateLanguage lang then unsupported_language db
      else
        let quotes = getQuotesByLanguage db lang in
        if length quotes = 0
        then \<lparr>status = 404, body = JObj [(''message'', JStr (none_available lang))],
              store = db, calls = [CallGetQuotesByLanguage]\<rparr>
        else \<lparr>status = 200,
              body = JObj [(''language'', JStr lang), (''total'', JNum (int (length quotes))),
                           (''quotes'', JArr quotes)],
              store = db, calls = [CallGetQuotesByLanguage]\<rparr>)"

definition get_language_quote :: "env \<Rightarrow> quotesdb \<Rightarrow> string \<Rightarrow> outcome" where
  "get_language_quote ev db lang =
     (if \<not> validateLanguage lang then unsupported_language db
      else
        let q = getRandomQuote (random ev) db lang in
        if \<not> truthy q
        then \<lparr>status = 404, body = JObj [(''message'', JStr (none_available lang))],
              store = db, calls = [CallGetRandomQuote]\<rparr>
        else \<lparr>status = 200, body = q, store = db, calls = [CallGetRandomQuote]\<rparr>)"

text \<open>
  \<^verbatim>\<open>const { quote, author } = req.body\<close> throws on \<^verbatim>\<open>null\<close> and \<^verbatim>\<open>undefined\<close>, outside
  the \<^verbatim>\<open>try\<close>; what \<^verbatim>\<open>db.addQuote\<close> throws is caught and answered with its message.
\<close>

definition post_language_quote :: "env \<Rightarrow> quotesdb \<Rightarrow> string \<Rightarrow> jsval \<Rightarrow> outcome" where
  "post_language_quote ev db lang req_body =
     (if \<not> validateLanguage lang then unsupported_language db
      else
        (case destructure req_body ''quote'' of
           Inl e \<Rightarrow> error_handler ev e db []
         | Inr q \<Rightarrow>
             (case destructure req_body ''author'' of
                Inl e \<Rightarrow> error_handler ev e db []
              | Inr a \<Rightarrow>
                  if \<not> truthy q \<or> \<not> truthy a
                  then \<lparr>status = 400,
                        body = JObj [(''error'', JStr ''Champs requis manquants / Missing required fields''),
                                     (''required'', JArr [JStr ''quote'', JStr ''author''])],
                        store = db, calls = []\<rparr>
                  else
                    (case addQuote db q a lang of
                       Inr db' \<Rightarrow>
                         \<lparr>status = 201,
                          body = JObj [(''message'',
                                        JStr (''Citation ajout'' @ e_acute @ ''e avec succ'' @ e_grave @
                                              ''s / Quote added successfully'')),
                                       (''quote'',
                                        JObj [(''quote'', q), (''author'', a),
                                              (''language'', JStr lang)])],
                          store = db', calls = [CallAddQuote]\<rparr>
                     | Inl e \<Rightarrow>
                         \<lparr>status = 500, body = JObj [(''error'', JStr (message e))],
                          store = db, calls = [CallAddQuote]\<rparr>))))"

fun handle :: "env \<Rightarrow> quotesdb \<Rightarrow> request \<Rightarrow> outcome" where
  "handle ev db GET_quotes = get_quotes ev db"
| "handle ev db (POST_quotes b) = post_quotes ev db b"
| "handle ev db (GET_language_quotes lang) = get_language_quotes ev db lang"
| "handle ev db (GET_language_quote lang) = get_language_quote ev db lang"
| "handle ev db (POST_language_quote lang b) = post_language_quote ev db lang b"

text \<open>Requests served one after the other, each on the table the one before left.\<close>

fun serve :: "env \<Rightarrow> quotesdb \<Rightarrow> request list \<Rightarrow> quotesdb" where
  "serve ev db [] = db"
| "serve ev db (r # rs) = serve ev (store (handle ev db r)) rs"

section \<open>Notions the properties are stated in\<close>

text \<open>
  The three texts under which \<^verbatim>\<open>insertManyQuotes.run\<close> stores a record, or the error it
  throws: neither depends on the table.
\<close>

definition stored_as :: "jsval \<Rightarrow> js_error + string \<times> string \<times> string" where
  "stored_as q =
     (case bind_named [''quote'', ''author'', ''language''] q of
        Inl e \<Rightarrow> Inl e
      | Inr vs \<Rightarrow> check_constraints vs)"

text \<open>The columns of a row that the queries return.\<close>

definition cells :: "row \<Rightarrow> string \<times> string \<times> string" where
  "cells r = (quote r, author r, language r)"

text \<open>The \<^verbatim>\<open>CHECK\<close> constraint, as a property of the whole table.\<close>

definition language_ok :: "quotesdb \<Rightarrow> bool" where
  "language_ok db = (\<forall>r \<in> set (rows db). language r = ''fr'' \<or> language r = ''en'')"

text \<open>A table and request bodies to run the properties on.\<close>

definition sample :: quotesdb where
  "sample =
     \<lparr>rows = [\<lparr>row_id = 1, quote = ''Stay hungry'', author = ''Jobs'', language = ''en''\<rparr>,
              \<lparr>row_id = 2, quote = ''Q1'', author = ''A1'', language = ''fr''\<rparr>,
              \<lparr>row_id = 3, quote = ''Q2'', author = ''A0'', language = ''en''\<rparr>],
      seq = 3\<rparr>"

definition Q1_fr :: jsval where
  "Q1_fr = JObj [(''quote'', JStr ''Q1''), (''author'', JStr ''A1''), (''language'', JStr ''fr'')]"

definition Q2_en :: jsval where
  "Q2_en = JObj [(''quote'', JStr ''Q2''), (''author'', JStr ''A0''), (''language'', JStr ''en'')]"

definition Q1_de :: jsval where
  "Q1_de = JObj [(''quote'', JStr ''Q1''), (''author'', JStr ''A1''), (''language'', JStr ''de'')]"

definition stay_hungry :: jsval where
  "stay_hungry = JObj [(''quote'', JStr ''Stay hungry''), (''author'', JStr ''Jobs'')]"

section \<open>Helper facts\<close>

lemma show_nat_0: "show_nat 0 = ''0''"
  by (simp add: show_nat.simps)

lemma validateLanguage_iff: "validateLanguage lang \<longleftrightarrow> lang = ''fr'' \<or> lang = ''en''"
  by (auto simp: validateLanguage_def array_includes_def)

lemma message_nonempty: "message e \<noteq> []"
  by (cases e) simp_all

lemma error_handler_body:
  "body (error_handler ev e db cs) =
     JObj ((''error'', JStr ''Erreur interne du serveur / Internal server error'') #
           (if node_env ev = Some ''development''
            then [(''details'', JStr (message e))] else []))"
  by (simp add: error_handler_def)

lemma destructure_get_prop: "get_prop b k = Inr v \<Longrightarrow> destructure b k = Inr v"
  by (cases b) simp_all

lemma destructure_author: "destructure b ''quote'' = Inr q \<Longrightarrow> \<exists>a. destructure b ''author'' = Inr a"
  by (cases b) simp_all

lemma addQuote_strings:
  "lang = ''fr'' \<or> lang = ''en'' \<Longrightarrow>
   addQuote db (JStr q) (JStr a) lang = Inr (append_row db (q, a, lang))"
  by (auto simp: addQuote_def insertQuote_run_def insert_values_def)

lemma mset_getQuotesByLanguage:
  "mset (getQuotesByLanguage db lang) =
     image_mset row_obj (filter_mset (\<lambda>r. language r = lang) (mset (rows db)))"
  by (simp add: getQuotesByLanguage_def select_by_language_def)

lemma getQuotes_lengths:
  "length (getAllQuotes db) = length (rows db)"
  "length (getQuotesByLanguage db lang) = length (filter (\<lambda>r. language r = lang) (rows db))"
  by (simp_all add: getAllQuotes_def getQuotesByLanguage_def select_all_def select_by_language_def)

lemma getQuotes_empty:
  "getAllQuotes db = [] \<longleftrightarrow> rows db = []"
  "getQuotesByLanguage db lang = [] \<longleftrightarrow> filter (\<lambda>r. language r = lang) (rows db) = []"
  using getQuotes_lengths [of db] by (metis length_0_conv)+

lemma select_sample:
  "select_all sample =
     [\<lparr>row_id = 3, quote = ''Q2'', author = ''A0'', language = ''en''\<rparr>,
      \<lparr>row_id = 1, quote = ''Stay hungry'', author = ''Jobs'', language = ''en''\<rparr>,
      \<lparr>row_id = 2, quote = ''Q1'', author = ''A1'', language = ''fr''\<rparr>]"
  "select_by_language sample ''en'' =
     [\<lparr>row_id = 3, quote = ''Q2'', author = ''A0'', language = ''en''\<rparr>,
      \<lparr>row_id = 1, quote = ''Stay hungry'', author = ''Jobs'', language = ''en''\<rparr>]"
  by code_simp+

subsection \<open>The loop of the bulk insert\<close>

lemma insertManyQuotes_run_stored_as:
  "insertManyQuotes_run db q =
     (case stored_as q of Inl e \<Rightarrow> Inl e | Inr c \<Rightarrow> Inr (append_row db c))"
  by (simp add: insertManyQuotes_run_def stored_as_def insert_values_def split: sum.splits)

lemma insert_loop_all:
  "map stored_as qs = map Inr cs \<Longrightarrow> insert_loop db qs = (foldl append_row db cs, None)"
proof (induction qs arbitrary: db cs)
  case Nil
  then show ?case by simp
next
  case (Cons q qs)
  then obtain c cs' where cs: "cs = c # cs'" "stored_as q = Inr c" "map stored_as qs = map Inr cs'"
    by (cases cs) auto
  with Cons.IH [of cs' "append_row db c"] show ?case
    by (simp add: insertManyQuotes_run_stored_as)
qed

lemma insert_loop_fail:
  "\<nexists>cs. map stored_as qs = map Inr cs \<Longrightarrow>
   \<exists>d q e. q \<in> set qs \<and> stored_as q = Inl e \<and> insert_loop db qs = (d, Some e)"
proof (induction qs arbitrary: db)
  case Nil
  then show ?case by simp
next
  case (Cons q qs)
  show ?case
  proof (cases "stored_as q")
    case (Inl e)
    then show ?thesis by (auto simp: insertManyQuotes_run_stored_as)
  next
    case (Inr c)
    have "\<nexists>cs. map stored_as qs = map Inr cs"
    proof
      assume "\<exists>cs. map stored_as qs = map Inr cs"
      then obtain cs where "map stored_as qs = map Inr cs" ..
      with Inr have "map stored_as (q # qs) = map Inr (c # cs)" by simp
      with Cons.prems show False by blast
    qed
    from Cons.IH [OF this, of "append_row db c"] Inr show ?thesis
      by (auto simp: insertManyQuotes_run_stored_as)
  qed
qed

lemma cells_foldl_append_row:
  "map cells (rows (foldl append_row db cs)) = map cells (rows db) @ cs"
proof (induction cs arbitrary: db)
  case Nil
  then show ?case by simp
next
  case (Cons c cs)
  obtain q a l where "c = (q, a, l)" by (cases c)
  with Cons.IH [of "append_row db c"] show ?case by (simp add: cells_def)
qed

lemma addManyQuotes_failure:
  "addManyQuotes db qs = (Failure m, db') \<Longrightarrow> db' = db \<and> (\<exists>e. m = message e)"
  by (auto simp: addManyQuotes_def transaction_def split: prod.splits option.splits)

subsection \<open>The language constraint holds in every table the server reaches\<close>

lemma check_constraints_language:
  "check_constraints vs = Inr (q, a, l) \<Longrightarrow> l = ''fr'' \<or> l = ''en''"
  by (induction vs rule: check_constraints.induct) (auto split: if_splits)

lemma append_row_language_ok:
  "language_ok db \<Longrightarrow> l = ''fr'' \<or> l = ''en'' \<Longrightarrow> language_ok (append_row db (q, a, l))"
  by (auto simp: language_ok_def)

lemma insert_values_language_ok:
  assumes "language_ok db" and "insert_values db vs = Inr db'"
  shows "language_ok db'"
proof -
  from assms(2) obtain q a l where c: "check_constraints vs = Inr (q, a, l)"
    and db': "db' = append_row db (q, a, l)"
    by (cases "check_constraints vs") (auto simp: insert_values_def)
  from check_constraints_language [OF c] assms(1) show ?thesis
    unfolding db' by (rule append_row_language_ok [rotated])
qed

lemma insert_loop_language_ok:
  "language_ok db \<Longrightarrow> language_ok (fst (insert_loop db qs))"
proof (induction qs arbitrary: db)
  case Nil
  then show ?case by simp
next
  case (Cons q qs)
  then show ?case
    by (auto simp: insertManyQuotes_run_def split: sum.splits
        dest: insert_values_language_ok)
qed

lemma addManyQuotes_language_ok:
  "language_ok db \<Longrightarrow> language_ok (snd (addManyQuotes db qs))"
  using insert_loop_language_ok [of db qs]
  by (auto simp: addManyQuotes_def transaction_def split: prod.splits option.splits)

lemma handle_language_ok:
  "language_ok db \<Longrightarrow> language_ok (store (handle ev db r))"
proof (cases r)
  case (POST_quotes b)
  assume "language_ok db"
  with addManyQuotes_language_ok [of db "array_elements b"] POST_quotes show ?thesis
    by (auto simp: post_quotes_def error_handler_def invalid_format_def
        split: sum.splits prod.splits bulk_result.splits)
next
  case (POST_language_quote lang b)
  assume "language_ok db"
  with POST_language_quote show ?thesis
    by (auto simp: post_language_quote_def error_handler_def unsupported_language_def
        addQuote_def insertQuote_run_def
        split: sum.splits dest: insert_values_language_ok)
qed (simp_all add: get_quotes_def get_language_quotes_def get_language_quote_def
      unsupported_language_def Let_def)

lemma serve_language_ok:
  "language_ok db \<Longrightarrow> language_ok (serve ev db rs)"
  by (induction rs arbitrary: db) (simp_all add: handle_language_ok)

lemma language_ok_init: "language_ok (init None)"
  by (simp add: language_ok_def init_def)

subsection \<open>Payloads that \<^verbatim>\<open>validateQuotes\<close> turns down\<close>

lemma not_array_rejected:
  "\<forall>qs. b \<noteq> JArr qs \<Longrightarrow> handle ev db (POST_quotes b) = invalid_format db"
  by (cases b) (simp_all add: post_quotes_def validateQuotes_def)

lemma quote_valid_truthy:
  "quote_valid q = Inr v \<Longrightarrow> truthy v \<longleftrightarrow> v = JBool True"
  by (auto simp: quote_valid_def split: sum.splits if_splits)

lemma quote_valid_total:
  "q \<noteq> JNull \<Longrightarrow> q \<noteq> JUndefined \<Longrightarrow> \<exists>v. quote_valid q = Inr v"
  by (cases q) (simp_all add: quote_valid_def)

lemma every_invalid_element:
  "JNull \<notin> set qs \<Longrightarrow> JUndefined \<notin> set qs \<Longrightarrow>
   \<exists>q \<in> set qs. quote_valid q \<noteq> Inr (JBool True) \<Longrightarrow> every quote_valid qs = Inr False"
proof (induction qs)
  case Nil
  then show ?case by simp
next
  case (Cons q qs)
  from Cons.prems obtain v where v: "quote_valid q = Inr v"
    using quote_valid_total [of q] by auto
  show ?case
  proof (cases "v = JBool True")
    case True
    with v Cons show ?thesis by auto
  next
    case False
    with v quote_valid_truthy [OF v] show ?thesis by simp
  qed
qed

lemma invalid_element_rejected:
  "JNull \<notin> set qs \<Longrightarrow> JUndefined \<notin> set qs \<Longrightarrow>
   \<exists>q \<in> set qs. quote_valid q \<noteq> Inr (JBool True) \<Longrightarrow>
   handle ev db (POST_quotes (JArr qs)) = invalid_format db"
  by (simp add: post_quotes_def validateQuotes_def every_invalid_element)

lemma failed_validation_untouched:
  "validateQuotes b \<noteq> Inr True \<Longrightarrow>
   store (handle ev db (POST_quotes b)) = db \<and> calls (handle ev db (POST_quotes b)) = [] \<and>
   (status (handle ev db (POST_quotes b)) = 400 \<or> status (handle ev db (POST_quotes b)) = 500)"
  by (auto simp: post_quotes_def error_handler_def invalid_format_def split: sum.splits)

subsection \<open>The random pick is one of the matching rows\<close>

lemma select_random_matches:
  "set (select_random rnd db lang) \<subseteq> set (filter (\<lambda>r. language r = lang) (rows db))"
proof -
  have "set (map snd (sort_key fst (zip ks ms))) \<subseteq> set ms" for ks :: "int list" and ms :: "row list"
    by (auto dest: set_zip_rightD)
  then show ?thesis
    unfolding select_random_def Let_def
    by (meson set_take_subset subset_trans)
qed

lemma select_random_empty:
  "select_random rnd db lang = [] \<longleftrightarrow> filter (\<lambda>r. language r = lang) (rows db) = []"
proof -
  have "length (map snd (sort_key fst (zip (map rnd [0..<length ms]) ms))) = length ms"
    for ms :: "row list"
    by simp
  then have "map snd (sort_key fst (zip (map rnd [0..<length ms]) ms)) = [] \<longleftrightarrow> ms = []"
    for ms :: "row list"
    by (metis length_0_conv)
  then show ?thesis
    by (simp add: select_random_def Let_def)
qed

lemma random_quote_among_matches:
  "(filter (\<lambda>r. language r = lang) (rows db) = [] \<longrightarrow>
      getRandomQuote rnd db lang = JUndefined) \<and>
   (filter (\<lambda>r. language r = lang) (rows db) \<noteq> [] \<longrightarrow>
      (\<exists>r \<in> set (rows db). language r = lang \<and> getRandomQuote rnd db lang = row_obj r))"
proof (cases "select_random rnd db lang")
  case Nil
  then show ?thesis
    using select_random_empty [of rnd db lang] by (simp add: getRandomQuote_def)
next
  case (Cons r rs)
  then have "r \<in> set (filter (\<lambda>r. language r = lang) (rows db))"
    using select_random_matches [of rnd db lang] by auto
  with Cons show ?thesis
    using select_random_empty [of rnd db lang] by (auto simp: getRandomQuote_def)
qed

lemma random_quote_endpoint:
  "validateLanguage lang \<Longrightarrow>
   status (handle ev db (GET_language_quote lang)) =
     (if filter (\<lambda>r. language r = lang) (rows db) = [] then 404 else 200)"
  using random_quote_among_matches [of lang db "random ev"]
  by (auto simp: get_language_quote_def Let_def row_obj_def)

subsection \<open>Where a 500 comes from\<close>

lemma post_language_quote_500:
  assumes "status (post_language_quote ev db lang b) = 500"
  shows "(\<exists>e. validateLanguage lang \<and> destructure b ''quote'' = Inl e \<and>
            post_language_quote ev db lang b = error_handler ev e db []) \<or>
         (\<exists>q a e. validateLanguage lang \<and> destructure b ''quote'' = Inr q \<and>
            destructure b ''author'' = Inr a \<and> truthy q \<and> truthy a \<and>
            addQuote db q a lang = Inl e \<and>
            post_language_quote ev db lang b =
              \<lparr>status = 500, body = JObj [(''error'', JStr (message e))],
               store = db, calls = [CallAddQuote]\<rparr>)"
proof (cases "validateLanguage lang")
  case False
  with assms show ?thesis
    by (simp add: post_language_quote_def unsupported_language_def)
next
  case True
  show ?thesis
  proof (cases "destructure b ''quote''")
    case (Inl e)
    with True show ?thesis by (simp add: post_language_quote_def)
  next
    case (Inr q)
    then obtain a where a: "destructure b ''author'' = Inr a"
      using destructure_author by blast
    show ?thesis
    proof (cases "truthy q \<and> truthy a")
      case False
      with True Inr a assms show ?thesis
        by (auto simp: post_language_quote_def)
    next
      case ok: True
      show ?thesis
      proof (cases "addQuote db q a lang")
        case (Inl e)
        with True Inr a ok show ?thesis by (simp add: post_language_quote_def)
      next
        case (Inr db')
        with True \<open>destructure b ''quote'' = Inr q\<close> a ok assms show ?thesis
          by (simp add: post_language_quote_def)
      qed
    qed
  qed
qed

lemma post_quotes_500:
  assumes "status (post_quotes ev db b) = 500"
  shows "(\<exists>e. validateQuotes b = Inl e \<and> post_quotes ev db b = error_handler ev e db []) \<or>
         (\<exists>e. validateQuotes b = Inr True \<and>
            addManyQuotes db (array_elements b) = (Failure (message e), db) \<and>
            post_quotes ev db b =
              \<lparr>status = 500,
               body = JObj [(''success'', JBool False),
                            (''message'', JStr (E_acute @ ''chec de l'import / Import failed'')),
                            (''error'', JStr (message e))],
               store = db, calls = [CallAddManyQuotes]\<rparr>)"
proof (cases "validateQuotes b")
  case (Inl e)
  then show ?thesis by (simp add: post_quotes_def)
next
  case (Inr ok)
  show ?thesis
  proof (cases ok)
    case False
    with Inr assms show ?thesis by (simp add: post_quotes_def invalid_format_def)
  next
    case True
    obtain res db' where res: "addManyQuotes db (array_elements b) = (res, db')"
      by (cases "addManyQuotes db (array_elements b)")
    show ?thesis
    proof (cases res)
      case (Success n)
      with res True Inr assms show ?thesis by (simp add: post_quotes_def)
    next
      case (Failure m)
      with res addManyQuotes_failure [of db "array_elements b" m db']
      obtain e where "addManyQuotes db (array_elements b) = (Failure (message e), db)"
        by auto
      with True Inr show ?thesis
        by (auto simp: post_quotes_def message_nonempty)
    qed
  qed
qed

lemma get_not_500:
  "status (get_quotes ev db) \<noteq> 500"
  "status (get_language_quotes ev db lang) \<noteq> 500"
  "status (get_language_quote ev db lang) \<noteq> 500"
  by (simp_all add: get_quotes_def get_language_quotes_def get_language_quote_def
      unsupported_language_def Let_def)

section \<open>The bulk insert is all or nothing\<close>

text \<open>
  C1. \<^verbatim>\<open>addManyQuotes\<close> is atomic. Either every record of the sequence can be stored, and
  then the table afterwards is the old one followed by one row for each record, in order,
  and the result reports \<^verbatim>\<open>quotes.length\<close> as the count; or some record of the sequence
  throws, and then the table is exactly the old one and the result reports failure with the
  message of that error.
\<close>

theorem addManyQuotes_atomic:
  "(\<exists>cs. map stored_as qs = map Inr cs \<and>
         addManyQuotes db qs = (Success (length qs), foldl append_row db cs) \<and>
         map cells (rows (foldl append_row db cs)) = map cells (rows db) @ cs \<and>
         length cs = length qs) \<or>
   (\<exists>q e. q \<in> set qs \<and> stored_as q = Inl e \<and>
          addManyQuotes db qs = (Failure (message e), db))"
proof (cases "\<exists>cs. map stored_as qs = map Inr cs")
  case True
  then obtain cs where cs: "map stored_as qs = map Inr cs" ..
  then have "length cs = length qs" by (metis length_map)
  with cs insert_loop_all [OF cs, of db] show ?thesis
    by (auto simp: addManyQuotes_def transaction_def cells_foldl_append_row)
next
  case False
  from insert_loop_fail [OF this, of db] show ?thesis
    by (auto simp: addManyQuotes_def transaction_def)
qed

theorem addManyQuotes_atomic_witness:
  "addManyQuotes (init None) [Q1_fr, Q2_en] =
     (Success 2,
      \<lparr>rows = [\<lparr>row_id = 1, quote = ''Q1'', author = ''A1'', language = ''fr''\<rparr>,
               \<lparr>row_id = 2, quote = ''Q2'', author = ''A0'', language = ''en''\<rparr>],
       seq = 2\<rparr>) \<and>
   addManyQuotes (init None) [Q1_fr, Q1_de] = (Failure (message CheckFailed), init None)"
  using addManyQuotes_atomic [of "[Q1_fr, Q2_en]" "init None"]
    addManyQuotes_atomic [of "[Q1_fr, Q1_de]" "init None"]
  by (simp add: addManyQuotes_def transaction_def insertManyQuotes_run_def insert_values_def
      Q1_fr_def Q2_en_def Q1_de_def init_def)

text \<open>
  C10. The empty array passes \<^verbatim>\<open>validateQuotes\<close>, the transaction inserts nothing, and
  \<^verbatim>\<open>POST /quotes\<close> answers 200 with a count of 0 in its message; the table is unchanged.
\<close>

theorem empty_bulk_import:
  "validateQuotes (JArr []) = Inr True \<and>
   addManyQuotes db [] = (Success 0, db) \<and>
   handle ev db (POST_quotes (JArr [])) =
     \<lparr>status = 200,
      body = JObj [(''success'', JBool True),
                   (''message'',
                    JStr (''0 citations import'' @ e_acute @ ''es / quotes imported''))],
      store = db, calls = [CallAddManyQuotes]\<rparr>"
  by (simp add: validateQuotes_def addManyQuotes_def transaction_def post_quotes_def show_nat_0)

theorem empty_bulk_import_witness:
  "handle production (init None) (POST_quotes (JArr [])) =
     \<lparr>status = 200,
      body = JObj [(''success'', JBool True),
                   (''message'',
                    JStr (''0 citations import'' @ e_acute @ ''es / quotes imported''))],
      store = init None, calls = [CallAddManyQuotes]\<rparr>"
  using empty_bulk_import [of "init None" production]
  by simp

text \<open>
  C4. A payload of \<^verbatim>\<open>POST /quotes\<close> with an element that lacks a non-empty quote, author
  or supported language is to be answered 400. For the payload \<^verbatim>\<open>[null]\<close> the code
  does not get that far: \<^verbatim>\<open>quote.quote\<close> throws inside \<^verbatim>\<open>validateQuotes\<close>, and the global
  error handler answers 500. No storage method is called and the table is unchanged.
\<close>

theorem null_element_internal_error:
  "handle ev db (POST_quotes (JArr [JNull])) =
     error_handler ev (NullPropertyRead ''quote'') db [] \<and>
   status (handle ev db (POST_quotes (JArr [JNull]))) = 500"
  by (simp add: post_quotes_def validateQuotes_def quote_valid_def error_handler_def)

theorem null_element_internal_error_witness:
  "handle production (init None) (POST_quotes (JArr [JNull])) =
     \<lparr>status = 500,
      body = JObj [(''error'', JStr ''Erreur interne du serveur / Internal server error'')],
      store = init None, calls = []\<rparr>"
  using null_element_internal_error [of production "init None"]
  by (simp add: error_handler_def production_def)

section \<open>Language validation\<close>

text \<open>
  C2. For a language path segment other than \<^verbatim>\<open>fr\<close> and \<^verbatim>\<open>en\<close>, each of the three
  language-scoped endpoints answers 400 without calling any method of the storage
  component, and the table is unchanged.
\<close>

theorem unsupported_language_rejected:
  assumes "lang \<noteq> ''fr''" and "lang \<noteq> ''en''"
    and "r = GET_language_quotes lang \<or> r = GET_language_quote lang \<or>
         r = POST_language_quote lang b"
  shows "status (handle ev db r) = 400 \<and> store (handle ev db r) = db \<and>
         calls (handle ev db r) = []"
  using assms
  by (auto simp: validateLanguage_iff get_language_quotes_def get_language_quote_def
      post_language_quote_def unsupported_language_def)

theorem unsupported_language_rejected_witness:
  "status (handle production sample (POST_language_quote ''de'' stay_hungry)) = 400 \<and>
   store (handle production sample (POST_language_quote ''de'' stay_hungry)) = sample \<and>
   calls (handle production sample (POST_language_quote ''de'' stay_hungry)) = [] \<and>
   status (handle production sample (GET_language_quotes ''EN'')) = 400 \<and>
   status (handle production sample (GET_language_quote ''es'')) = 400"
  using unsupported_language_rejected
      [of "''de''" "POST_language_quote ''de'' stay_hungry" stay_hungry production sample]
    unsupported_language_rejected
      [of "''EN''" "GET_language_quotes ''EN''" stay_hungry production sample]
    unsupported_language_rejected
      [of "''es''" "GET_language_quote ''es''" stay_hungry production sample]
  by simp

section \<open>What the table holds\<close>

text \<open>
  C3. Every row of the table is to have a non-empty quote and a non-empty author. The
  handler of \<^verbatim>\<open>POST /:language/quote\<close> only tests that the two fields are truthy, which
  an array always is, and the driver binds an array argument element by element: the body
  \<^verbatim>\<open>{"quote": [""], "author": [""]}\<close> is answered 201 and leaves a row whose quote and
  author are both the empty text.
\<close>

theorem array_fields_store_empty_texts:
  "handle ev db
     (POST_language_quote ''fr''
        (JObj [(''quote'', JArr [JStr []]), (''author'', JArr [JStr []])])) =
   \<lparr>status = 201,
    body = JObj [(''message'',
                  JStr (''Citation ajout'' @ e_acute @ ''e avec succ'' @ e_grave @
                        ''s / Quote added successfully'')),
                 (''quote'',
                  JObj [(''quote'', JArr [JStr []]), (''author'', JArr [JStr []]),
                        (''language'', JStr ''fr'')])],
    store = append_row db ([], [], ''fr''),
    calls = [CallAddQuote]\<rparr>"
  by (simp add: post_language_quote_def validateLanguage_iff addQuote_def insertQuote_run_def
      insert_values_def)

theorem array_fields_store_empty_texts_witness:
  "serve production (init None)
     [POST_language_quote ''fr''
        (JObj [(''quote'', JArr [JStr []]), (''author'', JArr [JStr []])])] =
   \<lparr>rows = [\<lparr>row_id = 1, quote = [], author = [], language = ''fr''\<rparr>], seq = 1\<rparr>"
  using array_fields_store_empty_texts [of production "init None"]
  by (simp add: init_def)

section \<open>Listings\<close>

text \<open>
  C6. \<^verbatim>\<open>getAllQuotes\<close> returns the columns of every row of the table, sorted ascending by
  the pair (language, author); \<^verbatim>\<open>getQuotesByLanguage\<close> returns those of the rows of the
  given language, sorted ascending by author.
\<close>

theorem listings_sorted:
  "getAllQuotes db = map row_obj (select_all db) \<and>
   sorted (map (\<lambda>r. (language r, author r)) (select_all db)) \<and>
   mset (select_all db) = mset (rows db) \<and>
   getQuotesByLanguage db lang = map row_obj (select_by_language db lang) \<and>
   sorted (map author (select_by_language db lang)) \<and>
   mset (select_by_language db lang) = filter_mset (\<lambda>r. language r = lang) (mset (rows db))"
  by (simp add: getAllQuotes_def getQuotesByLanguage_def select_all_def select_by_language_def)

theorem listings_sorted_witness:
  "getAllQuotes sample =
     [JObj [(''quote'', JStr ''Q2''), (''author'', JStr ''A0''), (''language'', JStr ''en'')],
      JObj [(''quote'', JStr ''Stay hungry''), (''author'', JStr ''Jobs''),
            (''language'', JStr ''en'')],
      JObj [(''quote'', JStr ''Q1''), (''author'', JStr ''A1''), (''language'', JStr ''fr'')]] \<and>
   getQuotesByLanguage sample ''en'' =
     [JObj [(''quote'', JStr ''Q2''), (''author'', JStr ''A0''), (''language'', JStr ''en'')],
      JObj [(''quote'', JStr ''Stay hungry''), (''author'', JStr ''Jobs''),
            (''language'', JStr ''en'')]]"
  using listings_sorted [of sample "''en''"]
  by (simp add: select_sample row_obj_def)

text \<open>
  C8. A listing that matches no row is answered 404, for \<^verbatim>\<open>GET /quotes\<close> and for
  \<^verbatim>\<open>GET /:language/quotes\<close> with a supported language; one that matches some row is
  answered 200 with the rows and their number.
\<close>

theorem listing_not_found_or_wrapped:
  "(rows db = [] \<longrightarrow> status (handle ev db GET_quotes) = 404) \<and>
   (rows db \<noteq> [] \<longrightarrow>
      status (handle ev db GET_quotes) = 200 \<and>
      body (handle ev db GET_quotes) =
        JObj [(''total'', JNum (int (length (rows db)))), (''quotes'', JArr (getAllQuotes db))]) \<and>
   (validateLanguage lang \<longrightarrow>
      (filter (\<lambda>r. language r = lang) (rows db) = [] \<longrightarrow>
         status (handle ev db (GET_language_quotes lang)) = 404) \<and>
      (filter (\<lambda>r. language r = lang) (rows db) \<noteq> [] \<longrightarrow>
         status (handle ev db (GET_language_quotes lang)) = 200 \<and>
         body (handle ev db (GET_language_quotes lang)) =
           JObj [(''language'', JStr lang),
                 (''total'', JNum (int (length (filter (\<lambda>r. language r = lang) (rows db))))),
                 (''quotes'', JArr (getQuotesByLanguage db lang))]))"
  by (simp add: get_quotes_def get_language_quotes_def getQuotes_lengths getQuotes_empty Let_def)

theorem listing_not_found_or_wrapped_witness:
  "status (handle production (init None) GET_quotes) = 404 \<and>
   status (handle production (init None) (GET_language_quotes ''en'')) = 404 \<and>
   status (handle production sample (GET_language_quotes ''en'')) = 200 \<and>
   body (handle production sample (GET_language_quotes ''en'')) =
     JObj [(''language'', JStr ''en''), (''total'', JNum 2),
           (''quotes'', JArr (getQuotesByLanguage sample ''en''))] \<and>
   status (handle production sample GET_quotes) = 200 \<and>
   body (handle production sample GET_quotes) =
     JObj [(''total'', JNum 3), (''quotes'', JArr (getAllQuotes sample))]"
  using listing_not_found_or_wrapped [of "init None" production "''en''"]
    listing_not_found_or_wrapped [of sample production "''en''"]
  by (simp add: validateLanguage_iff init_def sample_def)

text \<open>
  C7. After \<^verbatim>\<open>POST /:language/quote\<close> with a supported language and a non-empty quote and
  author, both strings, the request is answered 201 and the listing of that language is
  the listing before together with exactly the record submitted; \<^verbatim>\<open>GET /:language/quotes\<close>
  then answers 200 with it.
\<close>

theorem single_insert_round_trip:
  assumes "lang = ''fr'' \<or> lang = ''en''" and "q \<noteq> []" and "a \<noteq> []"
    and "get_prop b ''quote'' = Inr (JStr q)" and "get_prop b ''author'' = Inr (JStr a)"
  shows "status (handle ev db (POST_language_quote lang b)) = 201 \<and>
         mset (getQuotesByLanguage (store (handle ev db (POST_language_quote lang b))) lang) =
           add_mset (JObj [(''quote'', JStr q), (''author'', JStr a), (''language'', JStr lang)])
                    (mset (getQuotesByLanguage db lang)) \<and>
         status (handle ev' (store (handle ev db (POST_language_quote lang b)))
                   (GET_language_quotes lang)) = 200 \<and>
         body (handle ev' (store (handle ev db (POST_language_quote lang b)))
                 (GET_language_quotes lang)) =
           JObj [(''language'', JStr lang),
                 (''total'', JNum (int (length (getQuotesByLanguage db lang)) + 1)),
                 (''quotes'',
                  JArr (getQuotesByLanguage (store (handle ev db (POST_language_quote lang b))) lang))]"
proof -
  have post: "handle ev db (POST_language_quote lang b) =
      \<lparr>status = 201,
       body = JObj [(''message'',
                     JStr (''Citation ajout'' @ e_acute @ ''e avec succ'' @ e_grave @
                           ''s / Quote added successfully'')),
                    (''quote'', JObj [(''quote'', JStr q), (''author'', JStr a),
                                      (''language'', JStr lang)])],
       store = append_row db (q, a, lang), calls = [CallAddQuote]\<rparr>"
    using assms destructure_get_prop [OF assms(4)] destructure_get_prop [OF assms(5)]
    by (simp add: post_language_quote_def validateLanguage_iff addQuote_strings)
  have rows: "rows (append_row db (q, a, lang)) =
      rows db @ [\<lparr>row_id = Suc (seq db), quote = q, author = a, language = lang\<rparr>]"
    by simp
  have m: "mset (getQuotesByLanguage (append_row db (q, a, lang)) lang) =
      add_mset (JObj [(''quote'', JStr q), (''author'', JStr a), (''language'', JStr lang)])
               (mset (getQuotesByLanguage db lang))"
    unfolding mset_getQuotesByLanguage rows by (simp add: row_obj_def)
  have len: "length (getQuotesByLanguage (append_row db (q, a, lang)) lang) =
      Suc (length (getQuotesByLanguage db lang))"
    using arg_cong [OF m, of size] by simp
  have get: "handle ev' (append_row db (q, a, lang)) (GET_language_quotes lang) =
      \<lparr>status = 200,
       body = JObj [(''language'', JStr lang),
                    (''total'', JNum (int (length (getQuotesByLanguage db lang)) + 1)),
                    (''quotes'', JArr (getQuotesByLanguage (append_row db (q, a, lang)) lang))],
       store = append_row db (q, a, lang), calls = [CallGetQuotesByLanguage]\<rparr>"
  proof -
    from len have "getQuotesByLanguage (append_row db (q, a, lang)) lang \<noteq> []"
      by auto
    with assms(1) len show ?thesis
      by (simp add: get_language_quotes_def Let_def validateLanguage_iff del: append_row.simps)
  qed
  show ?thesis
    unfolding post using m get by simp
qed

theorem single_insert_round_trip_witness:
  "status (handle production (init None) (POST_language_quote ''en'' stay_hungry)) = 201 \<and>
   getQuotesByLanguage (store (handle production (init None) (POST_language_quote ''en'' stay_hungry))) ''en'' =
     [JObj [(''quote'', JStr ''Stay hungry''), (''author'', JStr ''Jobs''), (''language'', JStr ''en'')]] \<and>
   status (handle production (store (handle production (init None) (POST_language_quote ''en'' stay_hungry)))
             (GET_language_quotes ''en'')) = 200"
  using single_insert_round_trip [of "''en''" "''Stay hungry''" "''Jobs''" stay_hungry production "init None" production]
  by (simp add: stay_hungry_def getQuotesByLanguage_def select_by_language_def init_def row_obj_def
      post_language_quote_def validateLanguage_iff addQuote_def insertQuote_run_def
      insert_values_def get_language_quotes_def)

section \<open>Server errors\<close>

text \<open>
  C9, as stated: every 500 carries only a generic message, and an error detail only in
  development mode. It fails where a storage error is caught at its call site: with
  \<^verbatim>\<open>NODE_ENV\<close> set to \<^verbatim>\<open>production\<close>, a boolean quote makes the driver throw, and the 500
  of \<^verbatim>\<open>POST /:language/quote\<close> carries the driver's message.
\<close>

theorem storage_error_message_in_production:
  "status (handle production (init None)
     (POST_language_quote ''en'' (JObj [(''quote'', JBool True), (''author'', JStr ''x'')]))) = 500 \<and>
   body (handle production (init None)
     (POST_language_quote ''en'' (JObj [(''quote'', JBool True), (''author'', JStr ''x'')]))) =
     JObj [(''error'', JStr ''SQLite3 can only bind numbers, strings, bigints, buffers, and null'')] \<and>
   node_env production \<noteq> Some ''development''"
  by (simp add: post_language_quote_def validateLanguage_iff addQuote_def insertQuote_run_def
      production_def)

text \<open>
  C9, amended. A 500 is one of four answers. When \<^verbatim>\<open>validateQuotes\<close> throws, or the
  destructuring of the body of \<^verbatim>\<open>POST /:language/quote\<close> does, the global error handler
  sends the generic message, with a \<^verbatim>\<open>details\<close> field holding the message of that error
  exactly when \<^verbatim>\<open>NODE_ENV\<close> is \<^verbatim>\<open>development\<close>. The \<^verbatim>\<open>catch\<close> of
  \<^verbatim>\<open>POST /:language/quote\<close> sends the message of the error that \<^verbatim>\<open>addQuote\<close> threw on the
  quote and author of the body, and \<^verbatim>\<open>POST /quotes\<close> sends the message of the error that
  failed the transaction on the body's elements, both whatever the mode.
\<close>

theorem server_error_bodies:
  assumes "status (handle ev db r) = 500"
  shows "(\<exists>b e. r = POST_quotes b \<and> validateQuotes b = Inl e \<and>
            handle ev db r = error_handler ev e db [] \<and>
            body (handle ev db r) =
              JObj ((''error'', JStr ''Erreur interne du serveur / Internal server error'') #
                    (if node_env ev = Some ''development''
                     then [(''details'', JStr (message e))] else []))) \<or>
         (\<exists>lang b e. r = POST_language_quote lang b \<and> destructure b ''quote'' = Inl e \<and>
            handle ev db r = error_handler ev e db [] \<and>
            body (handle ev db r) =
              JObj ((''error'', JStr ''Erreur interne du serveur / Internal server error'') #
                    (if node_env ev = Some ''development''
                     then [(''details'', JStr (message e))] else []))) \<or>
         (\<exists>lang b q a e. r = POST_language_quote lang b \<and>
            destructure b ''quote'' = Inr q \<and> destructure b ''author'' = Inr a \<and>
            addQuote db q a lang = Inl e \<and>
            body (handle ev db r) = JObj [(''error'', JStr (message e))]) \<or>
         (\<exists>b e. r = POST_quotes b \<and> validateQuotes b = Inr True \<and>
            addManyQuotes db (array_elements b) = (Failure (message e), db) \<and>
            body (handle ev db r) =
              JObj [(''success'', JBool False),
                    (''message'', JStr (E_acute @ ''chec de l'import / Import failed'')),
                    (''error'', JStr (message e))])"
proof (cases r)
  case GET_quotes
  with assms get_not_500(1) [of ev db] show ?thesis by simp
next
  case (POST_quotes b)
  with assms have "status (post_quotes ev db b) = 500" by simp
  from post_quotes_500 [OF this] show ?thesis
  proof (elim disjE exE conjE)
    fix e assume "validateQuotes b = Inl e" "post_quotes ev db b = error_handler ev e db []"
    with POST_quotes have "r = POST_quotes b \<and> validateQuotes b = Inl e \<and>
        handle ev db r = error_handler ev e db [] \<and>
        body (handle ev db r) =
          JObj ((''error'', JStr ''Erreur interne du serveur / Internal server error'') #
                (if node_env ev = Some ''development''
                 then [(''details'', JStr (message e))] else []))"
      by (simp add: error_handler_body)
    then show ?thesis by blast
  next
    fix e assume "validateQuotes b = Inr True"
      "addManyQuotes db (array_elements b) = (Failure (message e), db)"
      "post_quotes ev db b =
         \<lparr>status = 500,
          body = JObj [(''success'', JBool False),
                       (''message'', JStr (E_acute @ ''chec de l'import / Import failed'')),
                       (''error'', JStr (message e))],
          store = db, calls = [CallAddManyQuotes]\<rparr>"
    with POST_quotes have "r = POST_quotes b \<and> validateQuotes b = Inr True \<and>
        addManyQuotes db (array_elements b) = (Failure (message e), db) \<and>
        body (handle ev db r) =
          JObj [(''success'', JBool False),
                (''message'', JStr (E_acute @ ''chec de l'import / Import failed'')),
                (''error'', JStr (message e))]"
      by simp
    then show ?thesis by blast
  qed
next
  case (GET_language_quotes lang)
  with assms get_not_500(2) [of ev db lang] show ?thesis by simp
next
  case (GET_language_quote lang)
  with assms get_not_500(3) [of ev db lang] show ?thesis by simp
next
  case (POST_language_quote lang b)
  with assms have "status (post_language_quote ev db lang b) = 500" by simp
  from post_language_quote_500 [OF this] show ?thesis
  proof (elim disjE exE conjE)
    fix e assume "destructure b ''quote'' = Inl e"
      "post_language_quote ev db lang b = error_handler ev e db []"
    with POST_language_quote have "r = POST_language_quote lang b \<and>
        destructure b ''quote'' = Inl e \<and>
        handle ev db r = error_handler ev e db [] \<and>
        body (handle ev db r) =
          JObj ((''error'', JStr ''Erreur interne du serveur / Internal server error'') #
                (if node_env ev = Some ''development''
                 then [(''details'', JStr (message e))] else []))"
      by (simp add: error_handler_body)
    then show ?thesis by blast
  next
    fix q a e assume "destructure b ''quote'' = Inr q" "destructure b ''author'' = Inr a"
      "addQuote db q a lang = Inl e"
      "post_language_quote ev db lang b =
         \<lparr>status = 500, body = JObj [(''error'', JStr (message e))],
          store = db, calls = [CallAddQuote]\<rparr>"
    with POST_language_quote have "r = POST_language_quote lang b \<and>
        destructure b ''quote'' = Inr q \<and> destructure b ''author'' = Inr a \<and>
        addQuote db q a lang = Inl e \<and>
        body (handle ev db r) = JObj [(''error'', JStr (message e))]"
      by simp
    then show ?thesis by blast
  qed
qed

theorem server_error_bodies_witness:
  "status (handle development (init None) (POST_quotes (JArr [JNull]))) = 500 \<and>
   body (handle development (init None) (POST_quotes (JArr [JNull]))) =
     JObj [(''error'', JStr ''Erreur interne du serveur / Internal server error''),
           (''details'', JStr ''Cannot read properties of null (reading 'quote')'')] \<and>
   status (handle production (init None) (POST_quotes (JArr [JNull]))) = 500 \<and>
   body (handle production (init None) (POST_quotes (JArr [JNull]))) =
     JObj [(''error'', JStr ''Erreur interne du serveur / Internal server error'')] \<and>
   status (handle production (init None)
     (POST_language_quote ''en'' (JObj [(''quote'', JStr ''q''), (''author'', JArr [JNull])]))) = 500 \<and>
   body (handle production (init None)
     (POST_language_quote ''en'' (JObj [(''quote'', JStr ''q''), (''author'', JArr [JNull])]))) =
     JObj [(''error'', JStr ''NOT NULL constraint failed: quotes.author'')] \<and>
   status (handle production (init None) (POST_quotes (JArr [JObj [(''quote'', JBool True), (''author'', JStr ''x''), (''language'', JStr ''fr'')]]))) = 500 \<and>
   body (handle production (init None) (POST_quotes (JArr [JObj [(''quote'', JBool True), (''author'', JStr ''x''), (''language'', JStr ''fr'')]]))) =
     JObj [(''success'', JBool False),
           (''message'', JStr (E_acute @ ''chec de l'import / Import failed'')),
           (''error'', JStr ''SQLite3 can only bind numbers, strings, bigints, buffers, and null'')]"
  using server_error_bodies [of development "init None" "POST_quotes (JArr [JNull])"]
    server_error_bodies [of production "init None" "POST_quotes (JArr [JNull])"]
    server_error_bodies [of production "init None"
      "POST_language_quote ''en'' (JObj [(''quote'', JStr ''q''), (''author'', JArr [JNull])])"]
    server_error_bodies [of production "init None"
      "POST_quotes (JArr [JObj [(''quote'', JBool True), (''author'', JStr ''x''), (''language'', JStr ''fr'')]])"]
  by (simp add: post_quotes_def validateQuotes_def quote_valid_def error_handler_def
      development_def production_def post_language_quote_def validateLanguage_iff
      addQuote_def insertQuote_run_def insert_values_def array_includes_def
      addManyQuotes_def transaction_def insertManyQuotes_run_def)

end
